theory Spec2Isabelle
  imports Main
begin

section \<open>Python values\<close>

text \<open>
  The values the plugin handles come from JSON bodies and from the option store:
  \<^verbatim>\<open>None\<close>, booleans, integers, strings, lists and dicts. A dict is an association
  list, looked up with \<^const>\<open>map_of\<close>.

  The only comparisons the plugin makes are \<^verbatim>\<open>include_tags != group\<close> and
  \<^verbatim>\<open>exclude_tags == group\<close>, where \<^verbatim>\<open>group\<close> is \<^verbatim>\<open>None\<close> or a \<^verbatim>\<open>str\<close>. Python's
  \<^verbatim>\<open>==\<close> against \<^verbatim>\<open>None\<close> or against a \<^verbatim>\<open>str\<close> holds exactly when the other side is
  the same \<^verbatim>\<open>None\<close> or the same \<^verbatim>\<open>str\<close>, so on these comparisons it is the equality
  of the datatype.
\<close>

datatype pyval =
    PNone
  | PBool bool
  | PInt int
  | PStr string
  | PList "pyval list"
  | PDict "(string \<times> pyval) list"

text \<open>Truth value testing, as \<^verbatim>\<open>if x\<close> and \<^verbatim>\<open>x and y\<close> do it.\<close>

fun truthy :: "pyval \<Rightarrow> bool" where
  "truthy PNone = False"
| "truthy (PBool b) = b"
| "truthy (PInt i) = (i \<noteq> 0)"
| "truthy (PStr s) = (s \<noteq> [])"
| "truthy (PList xs) = (xs \<noteq> [])"
| "truthy (PDict kvs) = (kvs \<noteq> [])"

datatype error =
    KeyError string
  | IndexError
  | AttributeError
  | RequestException
  | HTTPError nat
  | JSONDecodeError
  | TemplateError

text \<open>\<^verbatim>\<open>d[k]\<close> on a dict raises \<^verbatim>\<open>KeyError\<close> on a missing key.\<close>

definition dict_getitem :: "(string \<times> pyval) list \<Rightarrow> string \<Rightarrow> error + pyval" where
  "dict_getitem d k = (case map_of d k of None \<Rightarrow> Inl (KeyError k) | Some v \<Rightarrow> Inr v)"

text \<open>\<^verbatim>\<open>xs[i]\<close> on a list, for an index \<^verbatim>\<open>i >= 0\<close>, raises \<^verbatim>\<open>IndexError\<close> out of range.\<close>

definition list_getitem :: "'a list \<Rightarrow> nat \<Rightarrow> error + 'a" where
  "list_getitem xs i = (if i < length xs then Inr (xs ! i) else Inl IndexError)"

text \<open>
  \<^verbatim>\<open>s.split(sep)\<close> for a one-character separator: the string is cut at every
  occurrence of the separator, empty pieces are kept, and the result has at least one
  piece. The second argument holds the piece being read, reversed.
\<close>

fun split_from :: "char \<Rightarrow> string \<Rightarrow> string \<Rightarrow> string list" where
  "split_from sep cur [] = [rev cur]"
| "split_from sep cur (c # cs) =
     (if c = sep then rev cur # split_from sep [] cs else split_from sep (c # cur) cs)"

definition str_split :: "string \<Rightarrow> char \<Rightarrow> string list" where
  "str_split s sep = split_from sep [] s"

section \<open>Options and server records\<close>

text \<open>
  The options the plugin reads with \<^verbatim>\<open>get_option\<close>, resolved once by
  \<^verbatim>\<open>_read_config_data\<close>. \<^verbatim>\<open>include_tags\<close> and \<^verbatim>\<open>exclude_tags\<close> are declared
  \<^verbatim>\<open>type: list, elements: string\<close> and are \<^verbatim>\<open>None\<close> when unset; they are kept as
  Python values because the plugin compares them with the group. The three
  template specifications are opaque to the plugin and only handed on.
\<close>

record options =
  latitude_project :: pyval
  latitude_api_token :: pyval
  include_tags :: pyval
  exclude_tags :: pyval
  strict :: bool
  compose :: "(string \<times> string) list"
  groups :: "(string \<times> string) list"
  keyed_groups :: "(string \<times> string) list list"

text \<open>
  \<^verbatim>\<open>Server\<close>: \<^verbatim>\<open>id\<close>, \<^verbatim>\<open>type\<close> and the \<^verbatim>\<open>attributes\<close> dict. The type declaration
  lists the attribute keys, but a dict read from JSON may miss any of them, so every
  subscript is a fallible lookup.
\<close>

record server =
  server_id :: string
  server_type :: string
  attributes :: "(string \<times> pyval) list"

section \<open>The inventory and the constructed-inventory services\<close>

text \<open>
  Modelled from the spec: \<^verbatim>\<open>InventoryData\<close> (\<^verbatim>\<open>add_group\<close>, \<^verbatim>\<open>add_host\<close>,
  \<^verbatim>\<open>set_variable\<close>) belongs to the host framework and is not part of the plugin's
  source. The spec lists its operations: registering a group is idempotent and not an
  error, a host is added under a group or under none, a variable is set on a host.
  The inventory is the sequence of calls the plugin has made, oldest first, with
  their arguments; what the framework does inside a call is not modelled.
\<close>

datatype event =
    AddGroup string
  | AddHost string pyval
  | SetVariable string string pyval
  | SetCompositeVars "(string \<times> string) list" "(string \<times> pyval) list" string bool
  | AddHostToComposedGroups "(string \<times> string) list" "(string \<times> pyval) list" string bool
  | AddHostToKeyedGroups "(string \<times> string) list list" "(string \<times> pyval) list" string bool

type_synonym inventory = "event list"

definition add_group :: "string \<Rightarrow> inventory \<Rightarrow> inventory" where
  "add_group g invt = invt @ [AddGroup g]"

definition add_host :: "string \<Rightarrow> pyval \<Rightarrow> inventory \<Rightarrow> inventory" where
  "add_host h g invt = invt @ [AddHost h g]"

definition set_variable :: "string \<Rightarrow> string \<Rightarrow> pyval \<Rightarrow> inventory \<Rightarrow> inventory" where
  "set_variable h n v invt = invt @ [SetVariable h n v]"

text \<open>
  Modelled from the spec: the \<^verbatim>\<open>Constructable\<close> services (\<^verbatim>\<open>_set_composite_vars\<close>,
  \<^verbatim>\<open>_add_host_to_composed_groups\<close>, \<^verbatim>\<open>_add_host_to_keyed_groups\<close>) belong to the host
  framework and are not part of the plugin's source. The spec gives each a template
  specification, the variables, the host key and a strictness flag, and says when a
  call is fatal: an undefined variable reference during composition always is (its
  flag is fixed to true), and one during group building is when the flag is true.
  So a call is recorded, and it raises exactly when its flag is true and its
  specification meets an undefined reference. Whether it does, given the calls made
  so far and the call with its arguments, is the framework's and the user's
  templates' matter: a parameter of the model.
\<close>

type_synonym templates = "event list \<Rightarrow> event \<Rightarrow> bool"

definition set_composite_vars ::
  "templates \<Rightarrow> (string \<times> string) list \<Rightarrow> (string \<times> pyval) list \<Rightarrow> string \<Rightarrow> bool
     \<Rightarrow> inventory \<Rightarrow> (error + unit) \<times> inventory" where
  "set_composite_vars tmpl c vars h s invt =
     (if s \<and> tmpl invt (SetCompositeVars c vars h s) then Inl TemplateError else Inr (),
      invt @ [SetCompositeVars c vars h s])"

definition add_host_to_composed_groups ::
  "templates \<Rightarrow> (string \<times> string) list \<Rightarrow> (string \<times> pyval) list \<Rightarrow> string \<Rightarrow> bool
     \<Rightarrow> inventory \<Rightarrow> (error + unit) \<times> inventory" where
  "add_host_to_composed_groups tmpl g vars h s invt =
     (if s \<and> tmpl invt (AddHostToComposedGroups g vars h s) then Inl TemplateError else Inr (),
      invt @ [AddHostToComposedGroups g vars h s])"

definition add_host_to_keyed_groups ::
  "templates \<Rightarrow> (string \<times> string) list list \<Rightarrow> (string \<times> pyval) list \<Rightarrow> string \<Rightarrow> bool
     \<Rightarrow> inventory \<Rightarrow> (error + unit) \<times> inventory" where
  "add_host_to_keyed_groups tmpl k vars h s invt =
     (if s \<and> tmpl invt (AddHostToKeyedGroups k vars h s) then Inl TemplateError else Inr (),
      invt @ [AddHostToKeyedGroups k vars h s])"

section \<open>The group of a host\<close>

text \<open>
  \<^verbatim>\<open>get_hosts_group\<close>. Inside \<^verbatim>\<open>suppress(IndexError)\<close> the second piece of the
  hostname is taken and registered as a group; when there is no second piece the
  \<^verbatim>\<open>IndexError\<close> is swallowed, \<^verbatim>\<open>group\<close> stays \<^verbatim>\<open>None\<close> and nothing is registered.
  Then the two filters follow, each a truth test and a comparison of the whole option
  value with \<^verbatim>\<open>group\<close>.
\<close>

definition get_hosts_group :: "options \<Rightarrow> string \<Rightarrow> inventory \<Rightarrow> pyval \<times> inventory" where
  "get_hosts_group cfg hostname invt =
     (case (case list_getitem (str_split hostname CHR ''-'') 1 of
              Inl e \<Rightarrow> (PNone, invt)
            | Inr g \<Rightarrow> (PStr g, add_group g invt)) of
        (grp, invt1) \<Rightarrow>
          if truthy (include_tags cfg) \<and> include_tags cfg \<noteq> grp then (PNone, invt1)
          else if truthy (exclude_tags cfg) \<and> exclude_tags cfg = grp then (PNone, invt1)
          else (grp, invt1))"

section \<open>Adding one server\<close>

text \<open>
  \<^verbatim>\<open>add_sever\<close>. \<^verbatim>\<open>server["attributes"]["hostname"]\<close> raises \<^verbatim>\<open>KeyError\<close> when the
  key is missing, and \<^verbatim>\<open>hostname.split\<close> raises \<^verbatim>\<open>AttributeError\<close> when the value is
  not a string. The host is added under the computed group before
  \<^verbatim>\<open>server_attributes["primary_ipv4"]\<close> is read. \<^verbatim>\<open>host_vars\<close> is a dict filled in the
  order \<^verbatim>\<open>public_ip_address\<close>, \<^verbatim>\<open>server_name\<close>, \<^verbatim>\<open>group\<close>, and the loop over its items
  sets each variable in that order. Then the three services are called in turn: the
  composite variables with \<^verbatim>\<open>strict=True\<close>, the composed and the keyed groups with the
  \<^verbatim>\<open>strict\<close> option. A service that raises ends \<^verbatim>\<open>add_sever\<close>, so the later ones are
  not called. An exception leaves the inventory as it was when it was raised.
\<close>

definition add_sever ::
  "templates \<Rightarrow> options \<Rightarrow> server \<Rightarrow> inventory \<Rightarrow> (error + unit) \<times> inventory" where
  "add_sever tmpl cfg srv invt =
     (case dict_getitem (attributes srv) ''hostname'' of
        Inl e \<Rightarrow> (Inl e, invt)
      | Inr (PStr hostname) \<Rightarrow>
          (case get_hosts_group cfg hostname invt of
             (grp, invt1) \<Rightarrow>
               (case dict_getitem (attributes srv) ''primary_ipv4'' of
                  Inl e \<Rightarrow> (Inl e, add_host hostname grp invt1)
                | Inr ip \<Rightarrow>
                    (let host_vars = [(''public_ip_address'', ip),
                                      (''server_name'', PStr hostname),
                                      (''group'', grp)]
                     in case set_composite_vars tmpl (compose cfg) host_vars hostname True
                               (fold (\<lambda>(var_name, var_value). set_variable hostname var_name var_value)
                                  host_vars
                                  (add_host hostname grp invt1)) of
                          (Inl e, invt2) \<Rightarrow> (Inl e, invt2)
                        | (Inr u, invt2) \<Rightarrow>
                            (case add_host_to_composed_groups tmpl (groups cfg) host_vars hostname
                                    (strict cfg) invt2 of
                               (Inl e, invt3) \<Rightarrow> (Inl e, invt3)
                             | (Inr u, invt3) \<Rightarrow>
                                 add_host_to_keyed_groups tmpl (keyed_groups cfg) host_vars hostname
                                   (strict cfg) invt3))))
      | Inr _ \<Rightarrow> (Inl AttributeError, invt))"

section \<open>Fetching the servers\<close>

text \<open>
  The GET request of one page: the fixed URL, the two headers, the three query
  parameters and the timeout.
\<close>

record request =
  req_url :: string
  hdr_accept :: string
  hdr_authorization :: pyval
  param_filter_project :: pyval
  param_sort :: string
  param_page_number :: nat
  req_timeout :: nat

definition page_request :: "options \<Rightarrow> nat \<Rightarrow> request" where
  "page_request cfg page =
     \<lparr> req_url = ''https://api.latitude.sh/servers'',
       hdr_accept = ''application/json'',
       hdr_authorization = latitude_api_token cfg,
       param_filter_project = latitude_project cfg,
       param_sort = ''id'',
       param_page_number = page,
       req_timeout = 10 \<rparr>"

text \<open>
  Modelled from the spec: the HTTP client (\<^verbatim>\<open>requests.get\<close>, \<^verbatim>\<open>raise_for_status\<close>,
  \<^verbatim>\<open>json\<close>) is a library outside the plugin's source. The spec names what a request can
  come to: a network error or timeout, a non-success HTTP status (on which
  \<^verbatim>\<open>raise_for_status\<close> raises), a body that is not JSON, or a JSON object. Of the
  object the plugin reads only the \<^verbatim>\<open>data\<close> field, which may be missing, \<^verbatim>\<open>null\<close> or
  a list of records. The remote API is a function from the request to its outcome;
  the loop asks for each page number once.
\<close>

datatype json_data = NoDataKey | DataNull | DataList "server list"

datatype http_outcome =
    RequestFailed
  | ErrorStatus nat
  | InvalidJson
  | Replied json_data

text \<open>\<^verbatim>\<open>response.json().get("data", [])\<close>; the result \<open>None\<close> is Python's \<^verbatim>\<open>None\<close>.\<close>

fun get_data :: "json_data \<Rightarrow> server list option" where
  "get_data NoDataKey = Some []"
| "get_data DataNull = None"
| "get_data (DataList xs) = Some xs"

text \<open>
  The \<^verbatim>\<open>while True\<close> loop of \<^verbatim>\<open>get_servers\<close>, with the page cursor, the accumulated
  servers and the requests sent so far. It leaves by an exception, or by \<^verbatim>\<open>break\<close> when
  \<^verbatim>\<open>servers\<close> is falsy (\<^verbatim>\<open>None\<close> or empty). It need not return: the result \<open>None\<close> of the
  function is the loop running forever.
\<close>

partial_function (option) get_servers_loop ::
  "(request \<Rightarrow> http_outcome) \<Rightarrow> options \<Rightarrow> nat \<Rightarrow> server list \<Rightarrow> request list
     \<Rightarrow> (request list \<times> (error + server list)) option" where
  "get_servers_loop api cfg page all_servers sent =
     (case api (page_request cfg page) of
        RequestFailed \<Rightarrow> Some (sent @ [page_request cfg page], Inl RequestException)
      | ErrorStatus code \<Rightarrow> Some (sent @ [page_request cfg page], Inl (HTTPError code))
      | InvalidJson \<Rightarrow> Some (sent @ [page_request cfg page], Inl JSONDecodeError)
      | Replied body \<Rightarrow>
          (case get_data body of
             None \<Rightarrow> Some (sent @ [page_request cfg page], Inr all_servers)
           | Some servers \<Rightarrow>
               if servers = [] then Some (sent @ [page_request cfg page], Inr all_servers)
               else get_servers_loop api cfg (page + 1) (all_servers @ servers)
                      (sent @ [page_request cfg page])))"

definition get_servers ::
  "(request \<Rightarrow> http_outcome) \<Rightarrow> options \<Rightarrow> (request list \<times> (error + server list)) option" where
  "get_servers api cfg = get_servers_loop api cfg 1 [] []"

section \<open>Parsing\<close>

text \<open>
  The \<^verbatim>\<open>for server in servers\<close> loop of \<^verbatim>\<open>parse\<close>: the first exception ends it, and
  the inventory keeps what was added until then.
\<close>

fun add_servers ::
  "templates \<Rightarrow> options \<Rightarrow> server list \<Rightarrow> inventory \<Rightarrow> (error + unit) \<times> inventory" where
  "add_servers tmpl cfg [] invt = (Inr (), invt)"
| "add_servers tmpl cfg (srv # rest) invt =
     (case add_sever tmpl cfg srv invt of
        (Inl e, invt1) \<Rightarrow> (Inl e, invt1)
      | (Inr u, invt1) \<Rightarrow> add_servers tmpl cfg rest invt1)"

text \<open>
  \<^verbatim>\<open>parse\<close>, after the framework has read the options: all servers are fetched first,
  and only then added one by one. An exception of \<^verbatim>\<open>get_servers\<close> leaves the inventory
  untouched.
\<close>

definition parse ::
  "(request \<Rightarrow> http_outcome) \<Rightarrow> templates \<Rightarrow> options \<Rightarrow> inventory
     \<Rightarrow> ((error + unit) \<times> inventory) option" where
  "parse api tmpl cfg invt =
     (case get_servers api cfg of
        None \<Rightarrow> None
      | Some (sent, Inl e) \<Rightarrow> Some (Inl e, invt)
      | Some (sent, Inr servers) \<Rightarrow> Some (add_servers tmpl cfg servers invt))"

section \<open>Sample configuration and records\<close>

definition sample_options :: options where
  "sample_options =
     \<lparr> latitude_project = PStr ''proj_1'',
       latitude_api_token = PStr ''token'',
       include_tags = PNone,
       exclude_tags = PNone,
       strict = False,
       compose = [],
       groups = [],
       keyed_groups = [] \<rparr>"

definition sample_server :: "string \<Rightarrow> string \<Rightarrow> server" where
  "sample_server hostname ip =
     \<lparr> server_id = ''sv_1'', server_type = ''servers'',
       attributes = [(''hostname'', PStr hostname), (''primary_ipv4'', PStr ip)] \<rparr>"

definition staging_page :: "server list" where
  "staging_page = [sample_server ''db-staging-1'' ''10.0.0.1'']"

definition prod_page :: "server list" where
  "prod_page = [sample_server ''web-prod-2'' ''10.0.0.2'']"

definition two_pages :: "server list list" where
  "two_pages = [staging_page, prod_page]"

definition nameless_server :: server where
  "nameless_server =
     \<lparr> server_id = ''sv_2'', server_type = ''servers'',
       attributes = [(''primary_ipv4'', PStr ''10.0.0.3'')] \<rparr>"

definition broken_page :: "server list" where
  "broken_page = [sample_server ''db-staging-1'' ''10.0.0.1'', nameless_server,
                  sample_server ''web-prod-2'' ''10.0.0.2'']"

text \<open>
  Templates without an undefined reference; and templates that are bare variable
  names, where a name that is not among the variables of the call is an undefined
  reference.
\<close>

definition all_defined :: templates where
  "all_defined calls call = False"

fun bare_name_templates :: templates where
  "bare_name_templates calls (SetCompositeVars c vars h s) =
     list_ex (\<lambda>(name, expr). map_of vars expr = None) c"
| "bare_name_templates calls (AddHostToComposedGroups g vars h s) =
     list_ex (\<lambda>(name, expr). map_of vars expr = None) g"
| "bare_name_templates calls call = False"

text \<open>
  A remote API that serves the given pages under the page numbers 1, 2, ... and
  answers every other page number with a fixed outcome.
\<close>

definition paged_api :: "server list list \<Rightarrow> http_outcome \<Rightarrow> request \<Rightarrow> http_outcome" where
  "paged_api pages final req =
     (if 1 \<le> param_page_number req \<and> param_page_number req \<le> length pages
      then Replied (DataList (pages ! (param_page_number req - 1)))
      else final)"

section \<open>Notions used in the statements\<close>

text \<open>
  An outcome is an empty page when the loop leaves by \<^verbatim>\<open>break\<close> on it: a JSON body
  whose \<^verbatim>\<open>data\<close> is missing, \<^verbatim>\<open>null\<close> or an empty list. It is a non-empty page when
  it is a JSON body with a non-empty list of records.
\<close>

fun empty_page :: "http_outcome \<Rightarrow> bool" where
  "empty_page (Replied d) = (case get_data d of None \<Rightarrow> True | Some servers \<Rightarrow> servers = [])"
| "empty_page outcome = False"

fun nonempty_page :: "http_outcome \<Rightarrow> bool" where
  "nonempty_page (Replied (DataList servers)) = (servers \<noteq> [])"
| "nonempty_page outcome = False"

text \<open>
  The strictness flag of a call to one of the three services, against the configured
  \<^verbatim>\<open>strict\<close> option: true for the composite variables, the option's value for the
  composed and the keyed groups.
\<close>

fun strict_flag_as_coded :: "bool \<Rightarrow> event \<Rightarrow> bool" where
  "strict_flag_as_coded st (SetCompositeVars c vars h b) = (b = True)"
| "strict_flag_as_coded st (AddHostToComposedGroups g vars h b) = (b = st)"
| "strict_flag_as_coded st (AddHostToKeyedGroups k vars h b) = (b = st)"
| "strict_flag_as_coded st e = True"

text \<open>The calls of the composed-group and the keyed-group service.\<close>

fun is_group_builder_call :: "event \<Rightarrow> bool" where
  "is_group_builder_call (AddHostToComposedGroups g vars h b) = True"
| "is_group_builder_call (AddHostToKeyedGroups k vars h b) = True"
| "is_group_builder_call e = False"

text \<open>The number of \<^verbatim>\<open>add_host\<close> calls in a sequence of calls.\<close>

fun is_add_host :: "event \<Rightarrow> bool" where
  "is_add_host (AddHost h g) = True"
| "is_add_host e = False"

definition count_add_host :: "event list \<Rightarrow> nat" where
  "count_add_host calls = length (filter is_add_host calls)"

text \<open>
  Every \<^verbatim>\<open>add_host\<close> call that names a group comes after an \<^verbatim>\<open>add_group\<close> call for
  that group (or the group is among those known at the start).
\<close>

fun groups_registered_first :: "string list \<Rightarrow> event list \<Rightarrow> bool" where
  "groups_registered_first known [] = True"
| "groups_registered_first known (AddGroup g # es) = groups_registered_first (g # known) es"
| "groups_registered_first known (AddHost h (PStr g) # es) =
     (g \<in> set known \<and> groups_registered_first known es)"
| "groups_registered_first known (e # es) = groups_registered_first known es"

section \<open>Auxiliary facts\<close>

lemmas inventory_calls =
  add_group_def add_host_def set_variable_def set_composite_vars_def
  add_host_to_composed_groups_def add_host_to_keyed_groups_def

text \<open>The three ways \<^verbatim>\<open>get_hosts_group\<close> can end.\<close>

lemma get_hosts_group_cases:
  "get_hosts_group cfg h invt = (PNone, invt)
   \<or> (\<exists>g. get_hosts_group cfg h invt = (PNone, invt @ [AddGroup g]))
   \<or> (\<exists>g. get_hosts_group cfg h invt = (PStr g, invt @ [AddGroup g]))"
  by (simp add: get_hosts_group_def add_group_def split: sum.splits)


text \<open>The invariant on the order of calls survives a longer list of known groups and appending.\<close>

lemma groups_registered_first_mono:
  "groups_registered_first known es \<Longrightarrow> set known \<subseteq> set known'
     \<Longrightarrow> groups_registered_first known' es"
proof (induction es arbitrary: known known')
  case Nil
  then show ?case by simp
next
  case (Cons e es)
  show ?case
  proof (cases e)
    case (AddGroup g)
    with Cons.prems have "groups_registered_first (g # known) es" by simp
    moreover from Cons.prems have "set (g # known) \<subseteq> set (g # known')" by auto
    ultimately have "groups_registered_first (g # known') es" by (rule Cons.IH)
    with AddGroup show ?thesis by simp
  next
    case (AddHost h grp)
    with Cons show ?thesis by (cases grp) auto
  qed (use Cons in auto)
qed

lemma groups_registered_first_append:
  "groups_registered_first known es \<Longrightarrow> groups_registered_first [] es'
     \<Longrightarrow> groups_registered_first known (es @ es')"
proof (induction es arbitrary: known)
  case Nil
  then show ?case by (simp add: groups_registered_first_mono [of "[]"])
next
  case (Cons e es)
  show ?case
  proof (cases e)
    case (AddHost h grp)
    with Cons show ?thesis by (cases grp) auto
  qed (use Cons in auto)
qed

lemma count_add_host_append:
  "count_add_host (xs @ ys) = count_add_host xs + count_add_host ys"
  by (simp add: count_add_host_def)

text \<open>What one \<^verbatim>\<open>add_sever\<close>, and what the whole loop, adds to the calls made so far.\<close>

lemma add_sever_calls:
  "\<exists>new. snd (add_sever tmpl cfg srv invt) = invt @ new \<and> groups_registered_first [] new
      \<and> count_add_host new \<le> 1
      \<and> (fst (add_sever tmpl cfg srv invt) = Inr () \<longrightarrow> count_add_host new = 1)
      \<and> (\<forall>h. dict_getitem (attributes srv) ''hostname'' = Inr (PStr h) \<longrightarrow>
            filter is_add_host new = [AddHost h (fst (get_hosts_group cfg h invt))])"
proof (cases "dict_getitem (attributes srv) ''hostname''")
  case (Inl e)
  then show ?thesis by (simp add: add_sever_def count_add_host_def)
next
  case (Inr v)
  show ?thesis
  proof (cases v)
    case (PStr h)
    from get_hosts_group_cases [of cfg h invt] show ?thesis
      using Inr PStr
      by (elim disjE exE)
         (simp_all add: add_sever_def inventory_calls count_add_host_def Let_def
            split: sum.splits)
  qed (use Inr in \<open>simp_all add: add_sever_def count_add_host_def\<close>)
qed

lemma add_servers_calls:
  "\<exists>new. snd (add_servers tmpl cfg servers invt) = invt @ new \<and> groups_registered_first [] new
      \<and> count_add_host new \<le> length servers
      \<and> (fst (add_servers tmpl cfg servers invt) = Inr () \<longrightarrow> count_add_host new = length servers)"
proof (induction servers arbitrary: invt)
  case Nil
  then show ?case by (simp add: count_add_host_def)
next
  case (Cons srv rest)
  from add_sever_calls [of tmpl cfg srv invt] obtain new1 where
    n1: "snd (add_sever tmpl cfg srv invt) = invt @ new1" "groups_registered_first [] new1"
        "count_add_host new1 \<le> 1"
        "fst (add_sever tmpl cfg srv invt) = Inr () \<longrightarrow> count_add_host new1 = 1"
    by blast
  show ?case
  proof (cases "fst (add_sever tmpl cfg srv invt)")
    case (Inl e)
    with n1 show ?thesis
      by (cases "add_sever tmpl cfg srv invt") auto
  next
    case (Inr u)
    from Cons.IH [of "invt @ new1"] obtain new2 where
      n2: "snd (add_servers tmpl cfg rest (invt @ new1)) = (invt @ new1) @ new2"
          "groups_registered_first [] new2"
          "count_add_host new2 \<le> length rest"
          "fst (add_servers tmpl cfg rest (invt @ new1)) = Inr ()
             \<longrightarrow> count_add_host new2 = length rest"
      by blast
    from Inr n1 have step:
      "add_servers tmpl cfg (srv # rest) invt = add_servers tmpl cfg rest (invt @ new1)"
      by (cases "add_sever tmpl cfg srv invt") auto
    have "snd (add_servers tmpl cfg (srv # rest) invt) = invt @ (new1 @ new2)"
      using step n2(1) by simp
    moreover have "groups_registered_first [] (new1 @ new2)"
      using n1(2) n2(2) by (rule groups_registered_first_append)
    moreover have "count_add_host (new1 @ new2) \<le> length (srv # rest)"
      using n1(3) n2(3) by (simp add: count_add_host_append)
    moreover have "fst (add_servers tmpl cfg (srv # rest) invt) = Inr ()
                     \<longrightarrow> count_add_host (new1 @ new2) = length (srv # rest)"
      using step n1(4) n2(4) Inr by (simp add: count_add_host_append)
    ultimately show ?thesis by blast
  qed
qed

text \<open>
  The loop over the pages: through a run of non-empty pages, at an error status, at an
  empty page; and what a returning loop says about the API.
\<close>

lemma loop_nonempty_pages:
  assumes "\<And>i. i < length pages \<Longrightarrow>
             api (page_request cfg (p + i)) = Replied (DataList (pages ! i)) \<and> pages ! i \<noteq> []"
  shows "get_servers_loop api cfg p acc sent =
           get_servers_loop api cfg (p + length pages) (acc @ concat pages)
             (sent @ map (page_request cfg) [p..<p + length pages])"
  using assms
proof (induction pages arbitrary: p acc sent)
  case Nil
  then show ?case by simp
next
  case (Cons x xs)
  from Cons.prems [of 0] have x: "api (page_request cfg p) = Replied (DataList x)" "x \<noteq> []"
    by simp_all
  have rest: "api (page_request cfg (Suc p + i)) = Replied (DataList (xs ! i)) \<and> xs ! i \<noteq> []"
    if "i < length xs" for i
    using Cons.prems [of "Suc i"] that by simp
  have "get_servers_loop api cfg p acc sent =
          get_servers_loop api cfg (Suc p) (acc @ x) (sent @ [page_request cfg p])"
    by (subst get_servers_loop.simps) (simp add: x)
  also have "\<dots> = get_servers_loop api cfg (Suc p + length xs) ((acc @ x) @ concat xs)
                     ((sent @ [page_request cfg p]) @ map (page_request cfg) [Suc p..<Suc p + length xs])"
    by (rule Cons.IH) (rule rest)
  finally show ?case
    by (simp add: upt_conv_Cons del: upt_Suc)
qed

lemma get_servers_after_pages:
  assumes "\<forall>i<length pages.
             api (page_request cfg (i + 1)) = Replied (DataList (pages ! i)) \<and> pages ! i \<noteq> []"
  shows "get_servers api cfg =
           get_servers_loop api cfg (length pages + 1) (concat pages)
             (map (page_request cfg) [1..<length pages + 1])"
  using loop_nonempty_pages [of pages api cfg 1 "[]" "[]"] assms
  by (simp add: get_servers_def)

lemma loop_error_step:
  "api (page_request cfg p) = ErrorStatus code \<Longrightarrow>
     get_servers_loop api cfg p acc sent =
       Some (sent @ [page_request cfg p], Inl (HTTPError code))"
  by (subst get_servers_loop.simps) simp

lemma loop_empty_step:
  "empty_page (api (page_request cfg p)) \<Longrightarrow>
     get_servers_loop api cfg p acc sent = Some (sent @ [page_request cfg p], Inr acc)"
  by (subst get_servers_loop.simps)
     (auto elim!: empty_page.elims split: option.splits)

lemma loop_returns_on_empty_page:
  assumes "get_servers_loop api cfg p acc sent = Some y"
  shows "fst y \<noteq> [] \<and> (\<forall>servers. snd y = Inr servers \<longrightarrow> empty_page (api (last (fst y))))"
proof (rule get_servers_loop.raw_induct
         [where P = "\<lambda>api cfg page all_servers sent y.
            fst y \<noteq> [] \<and> (\<forall>servers. snd y = Inr servers \<longrightarrow> empty_page (api (last (fst y))))",
          OF _ assms],
       goal_cases)
  case (1 loop api cfg page all_servers sent y)
  show ?case
  proof (cases "api (page_request cfg page)")
    case (Replied body)
    show ?thesis
    proof (cases "get_data body")
      case None
      with 1(2) Replied show ?thesis by auto
    next
      case (Some servers)
      show ?thesis
      proof (cases "servers = []")
        case True
        with 1(2) Replied Some show ?thesis by auto
      next
        case False
        with 1(2) Replied Some
        have "loop api cfg (page + 1) (all_servers @ servers) (sent @ [page_request cfg page]) = Some y"
          by simp
        then show ?thesis by (rule 1(1))
      qed
    qed
  qed (use 1(2) in auto)
qed

lemma loop_returns_needs_end:
  assumes "get_servers_loop api cfg p acc sent = Some y"
  shows "\<exists>q\<ge>p. \<not> nonempty_page (api (page_request cfg q))"
proof (rule get_servers_loop.raw_induct
         [where P = "\<lambda>api cfg page all_servers sent y.
            \<exists>q\<ge>page. \<not> nonempty_page (api (page_request cfg q))",
          OF _ assms],
       goal_cases)
  case (1 loop api cfg page all_servers sent y)
  show ?case
  proof (cases "nonempty_page (api (page_request cfg page))")
    case False
    then show ?thesis by blast
  next
    case True
    then obtain servers where s: "api (page_request cfg page) = Replied (DataList servers)" "servers \<noteq> []"
      by (auto elim: nonempty_page.elims)
    with 1(2)
    have "loop api cfg (page + 1) (all_servers @ servers) (sent @ [page_request cfg page]) = Some y"
      by simp
    from 1(1) [OF this] obtain q where "q \<ge> page + 1" "\<not> nonempty_page (api (page_request cfg q))"
      by blast
    then show ?thesis by (intro exI [of _ q]) simp
  qed
qed

section \<open>The include filter\<close>

text \<open>
  C1. Whenever \<^verbatim>\<open>include_tags\<close> is a non-empty list, \<^verbatim>\<open>get_hosts_group\<close> returns
  \<^verbatim>\<open>None\<close> for every hostname, whatever its group candidate: the list is compared
  with the candidate, which is a string or \<^verbatim>\<open>None\<close>, and is never equal to it.
\<close>

theorem include_tags_list_returns_none:
  assumes "include_tags cfg = PList ts" and "ts \<noteq> []"
  shows "fst (get_hosts_group cfg hostname invt) = PNone"
  using assms
  by (simp add: get_hosts_group_def split: sum.splits)

text \<open>
  The case of the spec: \<^verbatim>\<open>include_tags = ["prod"]\<close> and the hostname \<^verbatim>\<open>web-prod-01\<close>,
  whose candidate is \<^verbatim>\<open>prod\<close>.
\<close>

theorem include_tags_list_returns_none_witness:
  "include_tags (sample_options\<lparr>include_tags := PList [PStr ''prod'']\<rparr>) = PList [PStr ''prod'']
   \<and> [PStr ''prod''] \<noteq> []
   \<and> list_getitem (str_split ''web-prod-01'' CHR ''-'') 1 = Inr ''prod''
   \<and> fst (get_hosts_group (sample_options\<lparr>include_tags := PList [PStr ''prod'']\<rparr>)
            ''web-prod-01'' []) = PNone"
proof -
  have a: "include_tags (sample_options\<lparr>include_tags := PList [PStr ''prod'']\<rparr>)
             = PList [PStr ''prod'']"
    by simp
  have b: "[PStr ''prod''] \<noteq> []"
    by simp
  have c: "list_getitem (str_split ''web-prod-01'' CHR ''-'') 1 = Inr ''prod''"
    by (simp add: list_getitem_def str_split_def)
  from include_tags_list_returns_none [OF a b, of "''web-prod-01''" "[]"] a b c
  show ?thesis by simp
qed

section \<open>The group of a host without filters\<close>

text \<open>
  C5. When \<^verbatim>\<open>include_tags\<close> and \<^verbatim>\<open>exclude_tags\<close> are both unset, \<^verbatim>\<open>get_hosts_group\<close>
  returns, for every hostname with at least two pieces between \<^verbatim>\<open>-\<close>, the second
  piece unchanged.
\<close>

theorem no_filters_returns_second_component:
  assumes "2 \<le> length (str_split hostname CHR ''-'')"
    and "include_tags cfg = PNone" and "exclude_tags cfg = PNone"
  shows "fst (get_hosts_group cfg hostname invt) = PStr (str_split hostname CHR ''-'' ! 1)"
  using assms by (simp add: get_hosts_group_def list_getitem_def)

text \<open>For \<^verbatim>\<open>web-prod-01\<close> the group is \<^verbatim>\<open>prod\<close>.\<close>

theorem no_filters_returns_second_component_witness:
  "2 \<le> length (str_split ''web-prod-01'' CHR ''-'')
   \<and> include_tags sample_options = PNone \<and> exclude_tags sample_options = PNone
   \<and> fst (get_hosts_group sample_options ''web-prod-01'' []) = PStr ''prod''"
proof -
  have a: "2 \<le> length (str_split ''web-prod-01'' CHR ''-'')"
    by (simp add: str_split_def)
  have b: "include_tags sample_options = PNone" and c: "exclude_tags sample_options = PNone"
    by (simp_all add: sample_options_def)
  have d: "str_split ''web-prod-01'' CHR ''-'' ! 1 = ''prod''"
    by (simp add: str_split_def)
  from no_filters_returns_second_component [OF a b c, of "[]"] a b c d
  show ?thesis by simp
qed

text \<open>
  C6. For a hostname with fewer than two pieces, \<^verbatim>\<open>get_hosts_group\<close> returns \<^verbatim>\<open>None\<close>
  under every configuration, registers no group and raises nothing; and the first
  call \<^verbatim>\<open>add_sever\<close> makes for a record with this hostname is \<^verbatim>\<open>add_host\<close> with the group
  \<^verbatim>\<open>None\<close>.
\<close>

theorem short_hostname_ungrouped:
  assumes "length (str_split hostname CHR ''-'') < 2"
    and "dict_getitem (attributes srv) ''hostname'' = Inr (PStr hostname)"
  shows "get_hosts_group cfg hostname invt = (PNone, invt)
         \<and> take (Suc (length invt)) (snd (add_sever tmpl cfg srv invt)) = invt @ [AddHost hostname PNone]"
  using assms
  by (auto simp add: get_hosts_group_def list_getitem_def add_sever_def inventory_calls Let_def
        split: sum.splits)

theorem short_hostname_ungrouped_witness:
  "length (str_split ''server1'' CHR ''-'') < 2
   \<and> dict_getitem (attributes (sample_server ''server1'' ''10.0.0.9'')) ''hostname''
       = Inr (PStr ''server1'')
   \<and> get_hosts_group sample_options ''server1'' [] = (PNone, [])
   \<and> take (Suc (length ([] :: event list)))
        (snd (add_sever all_defined sample_options (sample_server ''server1'' ''10.0.0.9'') []))
       = [] @ [AddHost ''server1'' PNone]"
proof -
  have a: "length (str_split ''server1'' CHR ''-'') < 2"
    by (simp add: str_split_def)
  have b: "dict_getitem (attributes (sample_server ''server1'' ''10.0.0.9'')) ''hostname''
             = Inr (PStr ''server1'')"
    by (simp add: dict_getitem_def sample_server_def)
  from short_hostname_ungrouped [OF a b, of sample_options "[]" all_defined] a b
  show ?thesis by blast
qed

section \<open>The exclude filter\<close>

text \<open>
  C10. When \<^verbatim>\<open>exclude_tags\<close> is a list and \<^verbatim>\<open>include_tags\<close> is unset (or empty), the
  exclusion never fires: \<^verbatim>\<open>get_hosts_group\<close> returns the group candidate, the second
  piece of the hostname or \<^verbatim>\<open>None\<close> when there is none, as if \<^verbatim>\<open>exclude_tags\<close> were
  not set.
\<close>

theorem exclude_tags_list_never_excludes:
  assumes "exclude_tags cfg = PList ts" and "\<not> truthy (include_tags cfg)"
  shows "fst (get_hosts_group cfg hostname invt) =
           (case list_getitem (str_split hostname CHR ''-'') 1 of
              Inl e \<Rightarrow> PNone | Inr g \<Rightarrow> PStr g)"
  using assms by (simp add: get_hosts_group_def split: sum.splits)

text \<open>With \<^verbatim>\<open>exclude_tags = ["prod"]\<close> the host \<^verbatim>\<open>web-prod-01\<close> is still put in \<^verbatim>\<open>prod\<close>.\<close>

theorem exclude_tags_list_never_excludes_witness:
  "exclude_tags (sample_options\<lparr>exclude_tags := PList [PStr ''prod'']\<rparr>) = PList [PStr ''prod'']
   \<and> \<not> truthy (include_tags (sample_options\<lparr>exclude_tags := PList [PStr ''prod'']\<rparr>))
   \<and> fst (get_hosts_group (sample_options\<lparr>exclude_tags := PList [PStr ''prod'']\<rparr>)
            ''web-prod-01'' []) = PStr ''prod''"
proof -
  have a: "exclude_tags (sample_options\<lparr>exclude_tags := PList [PStr ''prod'']\<rparr>)
             = PList [PStr ''prod'']"
    by simp
  have b: "\<not> truthy (include_tags (sample_options\<lparr>exclude_tags := PList [PStr ''prod'']\<rparr>))"
    by (simp add: sample_options_def)
  have c: "list_getitem (str_split ''web-prod-01'' CHR ''-'') 1 = Inr ''prod''"
    by (simp add: list_getitem_def str_split_def)
  from exclude_tags_list_never_excludes [OF a b, of "''web-prod-01''" "[]"] a b c
  show ?thesis by simp
qed

section \<open>Records with missing attributes\<close>

text \<open>
  C3, as amended. For every record whose attributes hold a string \<^verbatim>\<open>hostname\<close> and
  lack the key \<^verbatim>\<open>primary_ipv4\<close>, \<^verbatim>\<open>add_sever\<close> raises \<^verbatim>\<open>KeyError\<close> for that key, after
  the calls of \<^verbatim>\<open>get_hosts_group\<close> and the \<^verbatim>\<open>add_host\<close> call and before any variable is
  set: the missing key is an error, as a missing hostname is.
\<close>

theorem missing_primary_ipv4_raises:
  assumes "dict_getitem (attributes srv) ''hostname'' = Inr (PStr h)"
    and "map_of (attributes srv) ''primary_ipv4'' = None"
  shows "add_sever tmpl cfg srv invt =
           (Inl (KeyError ''primary_ipv4''),
            snd (get_hosts_group cfg h invt) @ [AddHost h (fst (get_hosts_group cfg h invt))])"
  using assms
  by (simp add: add_sever_def dict_getitem_def add_host_def split: prod.splits)

text \<open>A record \<^verbatim>\<open>server1\<close> without \<^verbatim>\<open>primary_ipv4\<close>: the host is added, then the error.\<close>

theorem missing_primary_ipv4_raises_witness:
  "dict_getitem
     (attributes \<lparr> server_id = ''sv_3'', server_type = ''servers'',
                   attributes = [(''hostname'', PStr ''server1'')] \<rparr>)
     ''hostname'' = Inr (PStr ''server1'')
   \<and> map_of
       (attributes \<lparr> server_id = ''sv_3'', server_type = ''servers'',
                     attributes = [(''hostname'', PStr ''server1'')] \<rparr>)
       ''primary_ipv4'' = None
   \<and> add_sever all_defined sample_options
        \<lparr> server_id = ''sv_3'', server_type = ''servers'',
          attributes = [(''hostname'', PStr ''server1'')] \<rparr> []
       = (Inl (KeyError ''primary_ipv4''), [AddHost ''server1'' PNone])"
proof -
  let ?srv = "\<lparr> server_id = ''sv_3'', server_type = ''servers'',
                attributes = [(''hostname'', PStr ''server1'')] \<rparr>"
  have a: "dict_getitem (attributes ?srv) ''hostname'' = Inr (PStr ''server1'')"
    by (simp add: dict_getitem_def)
  have b: "map_of (attributes ?srv) ''primary_ipv4'' = None"
    by simp
  have c: "get_hosts_group sample_options ''server1'' [] = (PNone, [])"
    by (simp add: get_hosts_group_def list_getitem_def str_split_def)
  from missing_primary_ipv4_raises [OF a b, of all_defined sample_options "[]"] a b c
  show ?thesis by simp
qed

text \<open>
  The claim as first stated fails on a record that has a hostname and no
  \<^verbatim>\<open>primary_ipv4\<close>: \<^verbatim>\<open>add_sever\<close> raises \<^verbatim>\<open>KeyError\<close>, after the group and the host
  have been added and before any variable is set.
\<close>

theorem missing_primary_ipv4_counterexample:
  "dict_getitem [(''hostname'', PStr ''web-prod-01'')] ''hostname'' = Inr (PStr ''web-prod-01'')
   \<and> map_of [(''hostname'', PStr ''web-prod-01'')] ''primary_ipv4'' = None
   \<and> add_sever all_defined sample_options
        \<lparr> server_id = ''sv_1'', server_type = ''servers'',
          attributes = [(''hostname'', PStr ''web-prod-01'')] \<rparr> []
      = (Inl (KeyError ''primary_ipv4''),
         [AddGroup ''prod'', AddHost ''web-prod-01'' (PStr ''prod'')])"
  by (simp add: add_sever_def dict_getitem_def get_hosts_group_def list_getitem_def str_split_def
        sample_options_def inventory_calls)



section \<open>The strictness flags\<close>

text \<open>
  C8, as amended. Among the calls one \<^verbatim>\<open>add_sever\<close> makes, every call of the
  composite-variable service carries the flag true, and every call of the
  composed-group and the keyed-group service carries the configured \<^verbatim>\<open>strict\<close> option.
  For a record with a string \<^verbatim>\<open>hostname\<close> and a \<^verbatim>\<open>primary_ipv4\<close>, after \<^verbatim>\<open>add_host\<close> and
  the three variables the composite-variable service is always called, with the flag
  true whatever the \<^verbatim>\<open>strict\<close> option is. The composed-group service is called exactly
  when that call returns, and the keyed-group service exactly when the composed-group
  call returns, both with the \<^verbatim>\<open>strict\<close> option; a service that raises ends
  \<^verbatim>\<open>add_sever\<close> with its error and the later services are not called.
\<close>

theorem strict_flags_passed:
  "list_all (strict_flag_as_coded (strict cfg))
     (drop (length invt) (snd (add_sever tmpl cfg srv invt)))
   \<and> (dict_getitem (attributes srv) ''hostname'' = Inr (PStr h)
        \<and> dict_getitem (attributes srv) ''primary_ipv4'' = Inr ip
        \<and> vars = [(''public_ip_address'', ip), (''server_name'', PStr h),
                   (''group'', fst (get_hosts_group cfg h invt))]
        \<and> base = snd (get_hosts_group cfg h invt) @
                   [AddHost h (fst (get_hosts_group cfg h invt)),
                    SetVariable h ''public_ip_address'' ip,
                    SetVariable h ''server_name'' (PStr h),
                    SetVariable h ''group'' (fst (get_hosts_group cfg h invt))]
        \<and> c1 = SetCompositeVars (compose cfg) vars h True
        \<and> c2 = AddHostToComposedGroups (groups cfg) vars h (strict cfg)
        \<and> c3 = AddHostToKeyedGroups (keyed_groups cfg) vars h (strict cfg)
      \<longrightarrow> add_sever tmpl cfg srv invt =
            (if tmpl base c1 then (Inl TemplateError, base @ [c1])
             else if strict cfg \<and> tmpl (base @ [c1]) c2
               then (Inl TemplateError, base @ [c1, c2])
             else if strict cfg \<and> tmpl (base @ [c1, c2]) c3
               then (Inl TemplateError, base @ [c1, c2, c3])
             else (Inr (), base @ [c1, c2, c3])))"
proof (intro conjI impI)
  show "list_all (strict_flag_as_coded (strict cfg))
          (drop (length invt) (snd (add_sever tmpl cfg srv invt)))"
  proof (cases "dict_getitem (attributes srv) ''hostname''")
    case (Inl e)
    then show ?thesis by (simp add: add_sever_def)
  next
    case (Inr v)
    show ?thesis
    proof (cases v)
      case (PStr h')
      from get_hosts_group_cases [of cfg h' invt] show ?thesis
        using Inr PStr
        by (elim disjE exE)
           (simp_all add: add_sever_def inventory_calls Let_def split: sum.splits)
    qed (use Inr in \<open>simp_all add: add_sever_def\<close>)
  qed
next
  assume "dict_getitem (attributes srv) ''hostname'' = Inr (PStr h)
        \<and> dict_getitem (attributes srv) ''primary_ipv4'' = Inr ip
        \<and> vars = [(''public_ip_address'', ip), (''server_name'', PStr h),
                   (''group'', fst (get_hosts_group cfg h invt))]
        \<and> base = snd (get_hosts_group cfg h invt) @
                   [AddHost h (fst (get_hosts_group cfg h invt)),
                    SetVariable h ''public_ip_address'' ip,
                    SetVariable h ''server_name'' (PStr h),
                    SetVariable h ''group'' (fst (get_hosts_group cfg h invt))]
        \<and> c1 = SetCompositeVars (compose cfg) vars h True
        \<and> c2 = AddHostToComposedGroups (groups cfg) vars h (strict cfg)
        \<and> c3 = AddHostToKeyedGroups (keyed_groups cfg) vars h (strict cfg)"
  then show "add_sever tmpl cfg srv invt =
            (if tmpl base c1 then (Inl TemplateError, base @ [c1])
             else if strict cfg \<and> tmpl (base @ [c1]) c2
               then (Inl TemplateError, base @ [c1, c2])
             else if strict cfg \<and> tmpl (base @ [c1, c2]) c3
               then (Inl TemplateError, base @ [c1, c2, c3])
             else (Inr (), base @ [c1, c2, c3]))"
    by (cases "get_hosts_group cfg h invt")
       (auto simp add: add_sever_def inventory_calls Let_def)
qed

text \<open>
  With \<^verbatim>\<open>strict\<close> configured false and a group template that refers to an undefined
  variable: the composite variables are evaluated with the flag true, the two group
  builders are called with false and do not raise.
\<close>

theorem strict_flags_passed_witness:
  "strict (sample_options\<lparr>compose := [(''ip'', ''public_ip_address'')],
                          groups := [(''production'', ''environment'')]\<rparr>) = False
   \<and> dict_getitem (attributes (sample_server ''web-prod-01'' ''10.0.0.1'')) ''hostname''
       = Inr (PStr ''web-prod-01'')
   \<and> dict_getitem (attributes (sample_server ''web-prod-01'' ''10.0.0.1'')) ''primary_ipv4''
       = Inr (PStr ''10.0.0.1'')
   \<and> add_sever bare_name_templates
        (sample_options\<lparr>compose := [(''ip'', ''public_ip_address'')],
                        groups := [(''production'', ''environment'')]\<rparr>)
        (sample_server ''web-prod-01'' ''10.0.0.1'') []
       = (Inr (),
          [AddGroup ''prod'',
           AddHost ''web-prod-01'' (PStr ''prod''),
           SetVariable ''web-prod-01'' ''public_ip_address'' (PStr ''10.0.0.1''),
           SetVariable ''web-prod-01'' ''server_name'' (PStr ''web-prod-01''),
           SetVariable ''web-prod-01'' ''group'' (PStr ''prod''),
           SetCompositeVars [(''ip'', ''public_ip_address'')]
             [(''public_ip_address'', PStr ''10.0.0.1''),
              (''server_name'', PStr ''web-prod-01''), (''group'', PStr ''prod'')]
             ''web-prod-01'' True,
           AddHostToComposedGroups [(''production'', ''environment'')]
             [(''public_ip_address'', PStr ''10.0.0.1''),
              (''server_name'', PStr ''web-prod-01''), (''group'', PStr ''prod'')]
             ''web-prod-01'' False,
           AddHostToKeyedGroups []
             [(''public_ip_address'', PStr ''10.0.0.1''),
              (''server_name'', PStr ''web-prod-01''), (''group'', PStr ''prod'')]
             ''web-prod-01'' False])"
proof -
  let ?cfg = "sample_options\<lparr>compose := [(''ip'', ''public_ip_address'')],
                            groups := [(''production'', ''environment'')]\<rparr>"
  let ?srv = "sample_server ''web-prod-01'' ''10.0.0.1''"
  let ?vars = "[(''public_ip_address'', PStr ''10.0.0.1''),
                (''server_name'', PStr ''web-prod-01''), (''group'', PStr ''prod'')]"
  let ?base = "[AddGroup ''prod'',
                AddHost ''web-prod-01'' (PStr ''prod''),
                SetVariable ''web-prod-01'' ''public_ip_address'' (PStr ''10.0.0.1''),
                SetVariable ''web-prod-01'' ''server_name'' (PStr ''web-prod-01''),
                SetVariable ''web-prod-01'' ''group'' (PStr ''prod'')]"
  let ?c1 = "SetCompositeVars [(''ip'', ''public_ip_address'')] ?vars ''web-prod-01'' True"
  let ?c2 = "AddHostToComposedGroups [(''production'', ''environment'')] ?vars
               ''web-prod-01'' False"
  let ?c3 = "AddHostToKeyedGroups [] ?vars ''web-prod-01'' False"
  have a: "dict_getitem (attributes ?srv) ''hostname'' = Inr (PStr ''web-prod-01'')"
    and b: "dict_getitem (attributes ?srv) ''primary_ipv4'' = Inr (PStr ''10.0.0.1'')"
    by (simp_all add: dict_getitem_def sample_server_def)
  have c: "get_hosts_group ?cfg ''web-prod-01'' [] = (PStr ''prod'', [AddGroup ''prod''])"
    by (simp add: get_hosts_group_def list_getitem_def str_split_def sample_options_def
          add_group_def)
  have d: "strict ?cfg = False" "compose ?cfg = [(''ip'', ''public_ip_address'')]"
    "groups ?cfg = [(''production'', ''environment'')]" "keyed_groups ?cfg = []"
    by (simp_all add: sample_options_def)
  have e: "\<not> bare_name_templates ?base ?c1"
    by simp
  from strict_flags_passed
         [of ?cfg "[]" bare_name_templates ?srv "''web-prod-01''" "PStr ''10.0.0.1''"
             ?vars ?base ?c1 ?c2 ?c3]
       a b c d e
  show ?thesis by simp
qed

text \<open>
  The claim as first stated fails when the composite variables refer to an undefined
  variable: the call with the flag true raises, although \<^verbatim>\<open>strict\<close> is configured
  false, and neither group builder is called for the record.
\<close>

theorem builders_not_invoked_counterexample:
  "strict (sample_options\<lparr>compose := [(''dc'', ''datacenter'')]\<rparr>) = False
   \<and> add_sever bare_name_templates
        (sample_options\<lparr>compose := [(''dc'', ''datacenter'')]\<rparr>)
        (sample_server ''web-prod-01'' ''10.0.0.1'') []
       = (Inl TemplateError,
          [AddGroup ''prod'',
           AddHost ''web-prod-01'' (PStr ''prod''),
           SetVariable ''web-prod-01'' ''public_ip_address'' (PStr ''10.0.0.1''),
           SetVariable ''web-prod-01'' ''server_name'' (PStr ''web-prod-01''),
           SetVariable ''web-prod-01'' ''group'' (PStr ''prod''),
           SetCompositeVars [(''dc'', ''datacenter'')]
             [(''public_ip_address'', PStr ''10.0.0.1''),
              (''server_name'', PStr ''web-prod-01''), (''group'', PStr ''prod'')]
             ''web-prod-01'' True])
   \<and> filter is_group_builder_call
        (snd (add_sever bare_name_templates
                (sample_options\<lparr>compose := [(''dc'', ''datacenter'')]\<rparr>)
                (sample_server ''web-prod-01'' ''10.0.0.1'') [])) = []"
  by (simp add: add_sever_def dict_getitem_def get_hosts_group_def list_getitem_def str_split_def
        sample_options_def sample_server_def inventory_calls Let_def)

section \<open>Pagination\<close>

text \<open>
  C2. When the API answers the pages 1 to n with non-empty lists of records and the
  page n + 1 with an empty page, \<^verbatim>\<open>get_servers\<close> returns the records of the n pages
  concatenated in order, having sent exactly the n + 1 requests for the pages
  1, 2, ..., n + 1 in this order. Whenever \<^verbatim>\<open>get_servers\<close> returns a list, the last
  request it sent was answered with an empty page; and when every page is non-empty
  it never returns.
\<close>

theorem get_servers_all_pages:
  "((\<forall>i<length pages.
        api (page_request cfg (i + 1)) = Replied (DataList (pages ! i)) \<and> pages ! i \<noteq> [])
      \<and> empty_page (api (page_request cfg (length pages + 1)))
    \<longrightarrow> get_servers api cfg =
          Some (map (page_request cfg) [1..<length pages + 2], Inr (concat pages)))
   \<and> (get_servers api cfg = Some (sent, Inr servers)
        \<longrightarrow> sent \<noteq> [] \<and> empty_page (api (last sent)))
   \<and> ((\<forall>q\<ge>1. nonempty_page (api (page_request cfg q))) \<longrightarrow> get_servers api cfg = None)"
proof (intro conjI impI)
  assume a: "(\<forall>i<length pages.
        api (page_request cfg (i + 1)) = Replied (DataList (pages ! i)) \<and> pages ! i \<noteq> [])
      \<and> empty_page (api (page_request cfg (length pages + 1)))"
  then have "get_servers api cfg =
           get_servers_loop api cfg (length pages + 1) (concat pages)
             (map (page_request cfg) [1..<length pages + 1])"
    by (intro get_servers_after_pages) blast
  also have "\<dots> = Some (map (page_request cfg) [1..<length pages + 1]
                           @ [page_request cfg (length pages + 1)], Inr (concat pages))"
    using a by (intro loop_empty_step) blast
  finally show "get_servers api cfg =
          Some (map (page_request cfg) [1..<length pages + 2], Inr (concat pages))"
    by simp
next
  assume "get_servers api cfg = Some (sent, Inr servers)"
  then have "get_servers_loop api cfg 1 [] [] = Some (sent, Inr servers)"
    by (simp add: get_servers_def)
  from loop_returns_on_empty_page [OF this]
  show "sent \<noteq> []" and "empty_page (api (last sent))" by simp_all
next
  assume n: "\<forall>q\<ge>1. nonempty_page (api (page_request cfg q))"
  show "get_servers api cfg = None"
  proof (cases "get_servers api cfg")
    case (Some y)
    then have "get_servers_loop api cfg 1 [] [] = Some y"
      by (simp add: get_servers_def)
    from loop_returns_needs_end [OF this] n show ?thesis by blast
  qed simp
qed

text \<open>
  Two pages of one record each and an empty third page; and an API whose every page
  holds the same record, on which the loop does not end.
\<close>

theorem get_servers_all_pages_witness:
  "paged_api two_pages (Replied (DataList [])) (page_request sample_options 1)
     = Replied (DataList staging_page)
   \<and> staging_page \<noteq> []
   \<and> paged_api two_pages (Replied (DataList [])) (page_request sample_options 2)
     = Replied (DataList prod_page)
   \<and> prod_page \<noteq> []
   \<and> empty_page (paged_api two_pages (Replied (DataList [])) (page_request sample_options 3))
   \<and> get_servers (paged_api two_pages (Replied (DataList []))) sample_options
      = Some ([page_request sample_options 1, page_request sample_options 2,
               page_request sample_options 3],
              Inr [sample_server ''db-staging-1'' ''10.0.0.1'',
                   sample_server ''web-prod-2'' ''10.0.0.2''])
   \<and> empty_page (paged_api two_pages (Replied (DataList []))
                   (last [page_request sample_options 1, page_request sample_options 2,
                          page_request sample_options 3]))
   \<and> nonempty_page
        (paged_api [] (Replied (DataList prod_page)) (page_request sample_options 1))
   \<and> get_servers (paged_api [] (Replied (DataList prod_page))) sample_options = None"
proof -
  let ?api = "paged_api two_pages (Replied (DataList []))"
  let ?api2 = "paged_api [] (Replied (DataList prod_page))"
  let ?sent = "[page_request sample_options 1, page_request sample_options 2,
                page_request sample_options 3]"
  let ?servers = "[sample_server ''db-staging-1'' ''10.0.0.1'',
                   sample_server ''web-prod-2'' ''10.0.0.2'']"
  have a: "\<forall>i<length two_pages.
        ?api (page_request sample_options (i + 1)) = Replied (DataList (two_pages ! i))
        \<and> two_pages ! i \<noteq> []"
    by (simp add: two_pages_def staging_page_def prod_page_def paged_api_def page_request_def less_Suc_eq)
  have b: "empty_page (?api (page_request sample_options (length two_pages + 1)))"
    by (simp add: two_pages_def staging_page_def prod_page_def paged_api_def page_request_def)
  have c: "\<forall>q\<ge>1. nonempty_page (?api2 (page_request sample_options q))"
    by (simp add: paged_api_def page_request_def prod_page_def)
  have a1: "?api (page_request sample_options 1) = Replied (DataList staging_page)"
    and a2: "?api (page_request sample_options 2) = Replied (DataList prod_page)"
    and a3: "staging_page \<noteq> []" "prod_page \<noteq> []"
    and b3: "empty_page (?api (page_request sample_options 3))"
    by (simp_all add: two_pages_def paged_api_def page_request_def staging_page_def
          prod_page_def)
  have d: "map (page_request sample_options) [1..<length two_pages + 2] = ?sent"
    by (simp add: two_pages_def staging_page_def prod_page_def upt_rec eval_nat_numeral)
  have e: "concat two_pages = ?servers"
    by (simp add: two_pages_def staging_page_def prod_page_def)
  from get_servers_all_pages [of two_pages ?api sample_options ?sent ?servers] a b
  have f: "get_servers ?api sample_options =
             Some (map (page_request sample_options) [1..<length two_pages + 2],
                   Inr (concat two_pages))"
    and g: "get_servers ?api sample_options = Some (?sent, Inr ?servers)
              \<longrightarrow> ?sent \<noteq> [] \<and> empty_page (?api (last ?sent))"
    by blast+
  from get_servers_all_pages [of "[]" ?api2 sample_options] c
  have h: "get_servers ?api2 sample_options = None"
    by blast
  from f g d e have "empty_page (?api (last ?sent))"
    by simp
  with a1 a2 a3 b3 c f h d e show ?thesis
    by simp
qed

text \<open>
  C7. When the pages 1 to n are non-empty and the request for the page n + 1 is
  answered with a non-success status, \<^verbatim>\<open>get_servers\<close> raises the HTTP error at that
  request: it has sent the requests for the pages 1, ..., n + 1, each once and none
  after. \<^verbatim>\<open>parse\<close> fails with the same error and leaves the inventory as it found it:
  no record of the n pages reaches \<^verbatim>\<open>add_sever\<close>.
\<close>

theorem http_error_aborts_parse:
  assumes "\<forall>i<length pages.
             api (page_request cfg (i + 1)) = Replied (DataList (pages ! i)) \<and> pages ! i \<noteq> []"
    and "api (page_request cfg (length pages + 1)) = ErrorStatus code"
  shows "get_servers api cfg =
           Some (map (page_request cfg) [1..<length pages + 2], Inl (HTTPError code))
         \<and> parse api tmpl cfg invt = Some (Inl (HTTPError code), invt)"
proof -
  have "get_servers api cfg =
           get_servers_loop api cfg (length pages + 1) (concat pages)
             (map (page_request cfg) [1..<length pages + 1])"
    using assms(1) by (rule get_servers_after_pages)
  also have "\<dots> = Some (map (page_request cfg) [1..<length pages + 1]
                           @ [page_request cfg (length pages + 1)], Inl (HTTPError code))"
    using assms(2) by (rule loop_error_step)
  finally have g: "get_servers api cfg =
           Some (map (page_request cfg) [1..<length pages + 2], Inl (HTTPError code))"
    by simp
  then show ?thesis by (simp add: parse_def)
qed

text \<open>A first page with one record, and the status 500 on the second page.\<close>

theorem http_error_aborts_parse_witness:
  "paged_api [staging_page] (ErrorStatus 500) (page_request sample_options 1)
     = Replied (DataList staging_page)
   \<and> staging_page \<noteq> []
   \<and> paged_api [staging_page] (ErrorStatus 500) (page_request sample_options 2)
     = ErrorStatus 500
   \<and> get_servers (paged_api [staging_page] (ErrorStatus 500)) sample_options
       = Some ([page_request sample_options 1, page_request sample_options 2],
               Inl (HTTPError 500))
   \<and> parse (paged_api [staging_page] (ErrorStatus 500)) all_defined sample_options []
       = Some (Inl (HTTPError 500), [])"
proof -
  let ?pages = "[staging_page]"
  let ?api = "paged_api ?pages (ErrorStatus 500)"
  have a: "\<forall>i<length ?pages.
       ?api (page_request sample_options (i + 1)) = Replied (DataList (?pages ! i))
       \<and> ?pages ! i \<noteq> []"
    by (simp add: paged_api_def page_request_def staging_page_def)
  have b: "?api (page_request sample_options (length ?pages + 1)) = ErrorStatus 500"
    by (simp add: paged_api_def page_request_def)
  have d: "map (page_request sample_options) [1..<length ?pages + 2] =
             [page_request sample_options 1, page_request sample_options 2]"
    by (simp add: upt_rec eval_nat_numeral)
  have c: "?api (page_request sample_options 1) = Replied (DataList staging_page)"
    "staging_page \<noteq> []"
    "?api (page_request sample_options 2) = ErrorStatus 500"
    by (simp_all add: paged_api_def page_request_def staging_page_def)
  from http_error_aborts_parse [OF a b, of all_defined "[]"] c d
  show ?thesis by simp
qed

section \<open>The invariants of a parse\<close>

text \<open>
  C9, as amended. Whenever \<^verbatim>\<open>parse\<close> returns, normally or with an exception, on an
  inventory in which every group was registered before a host was added to it, it
  leaves an inventory in which this still holds: each \<^verbatim>\<open>add_host\<close> call with a group
  comes after an \<^verbatim>\<open>add_group\<close> call for that group. It has made at most one
  \<^verbatim>\<open>add_host\<close> call per fetched record, and exactly one per fetched record when it
  returns normally. Every record with a string \<^verbatim>\<open>hostname\<close> that reaches \<^verbatim>\<open>add_sever\<close>
  makes it call \<^verbatim>\<open>add_host\<close> exactly once, with the result of \<^verbatim>\<open>get_hosts_group\<close>, be
  it a group or \<^verbatim>\<open>None\<close>.
\<close>

theorem groups_before_hosts_one_add_host:
  assumes "groups_registered_first [] invt"
    and "parse api tmpl cfg invt = Some (res, invt')"
  shows "groups_registered_first [] invt'
         \<and> (\<forall>sent servers. get_servers api cfg = Some (sent, Inr servers) \<longrightarrow>
               count_add_host invt' \<le> count_add_host invt + length servers)
         \<and> (res = Inr () \<longrightarrow>
              (\<exists>sent servers. get_servers api cfg = Some (sent, Inr servers)
                 \<and> count_add_host invt' = count_add_host invt + length servers))
         \<and> (\<forall>srv h calls. dict_getitem (attributes srv) ''hostname'' = Inr (PStr h) \<longrightarrow>
               filter is_add_host (drop (length calls) (snd (add_sever tmpl cfg srv calls)))
                 = [AddHost h (fst (get_hosts_group cfg h calls))])"
proof (intro conjI)
  from assms(2) obtain sent fetched where g: "get_servers api cfg = Some (sent, fetched)"
    by (cases "get_servers api cfg") (auto simp add: parse_def)
  have main: "groups_registered_first [] invt'
         \<and> (\<forall>sent servers. get_servers api cfg = Some (sent, Inr servers) \<longrightarrow>
               count_add_host invt' \<le> count_add_host invt + length servers)
         \<and> (res = Inr () \<longrightarrow>
              (\<exists>sent servers. get_servers api cfg = Some (sent, Inr servers)
                 \<and> count_add_host invt' = count_add_host invt + length servers))"
  proof (cases fetched)
    case (Inl e)
    with g assms(2) have "res = Inl e" "invt' = invt"
      by (simp_all add: parse_def)
    with assms(1) g Inl show ?thesis
      by simp
  next
    case (Inr servers)
    from add_servers_calls [of tmpl cfg servers invt] obtain new where
      n: "snd (add_servers tmpl cfg servers invt) = invt @ new" "groups_registered_first [] new"
         "count_add_host new \<le> length servers"
         "fst (add_servers tmpl cfg servers invt) = Inr () \<longrightarrow> count_add_host new = length servers"
      by blast
    from g Inr assms(2) have p: "res = fst (add_servers tmpl cfg servers invt)" "invt' = invt @ new"
      using n(1) by (simp_all add: parse_def prod_eq_iff)
    from assms(1) n(2) have "groups_registered_first [] (invt @ new)"
      by (rule groups_registered_first_append)
    with p n(3) n(4) g Inr show ?thesis
      by (simp add: count_add_host_append)
  qed
  from main show "groups_registered_first [] invt'"
    by blast
  from main show "\<forall>sent servers. get_servers api cfg = Some (sent, Inr servers) \<longrightarrow>
               count_add_host invt' \<le> count_add_host invt + length servers"
    by blast
  from main show "res = Inr () \<longrightarrow>
              (\<exists>sent servers. get_servers api cfg = Some (sent, Inr servers)
                 \<and> count_add_host invt' = count_add_host invt + length servers)"
    by blast
next
  show "\<forall>srv h calls. dict_getitem (attributes srv) ''hostname'' = Inr (PStr h) \<longrightarrow>
               filter is_add_host (drop (length calls) (snd (add_sever tmpl cfg srv calls)))
                 = [AddHost h (fst (get_hosts_group cfg h calls))]"
  proof (intro allI impI)
    fix srv :: server and h calls
    assume h: "dict_getitem (attributes srv) ''hostname'' = Inr (PStr h)"
    from add_sever_calls [of tmpl cfg srv calls] h obtain new where
      "snd (add_sever tmpl cfg srv calls) = calls @ new"
      "filter is_add_host new = [AddHost h (fst (get_hosts_group cfg h calls))]"
      by blast
    then show "filter is_add_host (drop (length calls) (snd (add_sever tmpl cfg srv calls)))
                 = [AddHost h (fst (get_hosts_group cfg h calls))]"
      by simp
  qed
qed

text \<open>
  The two records \<^verbatim>\<open>db-staging-1\<close> and \<^verbatim>\<open>web-prod-2\<close> without filters: the groups
  \<^verbatim>\<open>staging\<close> and \<^verbatim>\<open>prod\<close> are registered, each before its host, and two hosts are
  added. The record \<^verbatim>\<open>server1\<close> is added once, without a group.
\<close>

theorem groups_before_hosts_one_add_host_witness:
  "groups_registered_first [] []
   \<and> get_servers (paged_api two_pages (Replied (DataList []))) sample_options
       = Some ([page_request sample_options 1, page_request sample_options 2,
                page_request sample_options 3],
               Inr [sample_server ''db-staging-1'' ''10.0.0.1'',
                    sample_server ''web-prod-2'' ''10.0.0.2''])
   \<and> (\<exists>invt'. parse (paged_api two_pages (Replied (DataList []))) all_defined sample_options []
                  = Some (Inr (), invt')
         \<and> groups_registered_first [] invt'
         \<and> count_add_host invt' = 2
         \<and> filter is_add_host invt'
             = [AddHost ''db-staging-1'' (PStr ''staging''), AddHost ''web-prod-2'' (PStr ''prod'')])
   \<and> dict_getitem (attributes (sample_server ''server1'' ''10.0.0.9'')) ''hostname''
       = Inr (PStr ''server1'')
   \<and> filter is_add_host
        (drop (length ([] :: event list))
           (snd (add_sever all_defined sample_options (sample_server ''server1'' ''10.0.0.9'') [])))
       = [AddHost ''server1'' PNone]"
proof -
  let ?api = "paged_api two_pages (Replied (DataList []))"
  let ?sent = "[page_request sample_options 1, page_request sample_options 2,
                page_request sample_options 3]"
  let ?servers = "[sample_server ''db-staging-1'' ''10.0.0.1'',
                   sample_server ''web-prod-2'' ''10.0.0.2'']"
  let ?invt = "snd (add_servers all_defined sample_options ?servers [])"
  have a: "groups_registered_first [] []"
    by simp
  have b: "get_servers ?api sample_options = Some (?sent, Inr ?servers)"
    by (simp add: get_servers_def get_servers_loop.simps two_pages_def staging_page_def
          prod_page_def paged_api_def page_request_def)
  have c: "dict_getitem (attributes (sample_server ''server1'' ''10.0.0.9'')) ''hostname''
             = Inr (PStr ''server1'')"
    by (simp add: dict_getitem_def sample_server_def)
  have d: "fst (get_hosts_group sample_options ''server1'' []) = PNone"
    by (simp add: get_hosts_group_def list_getitem_def str_split_def)
  have e: "fst (add_servers all_defined sample_options ?servers []) = Inr ()"
    by (simp add: add_sever_def dict_getitem_def get_hosts_group_def list_getitem_def
          str_split_def sample_options_def sample_server_def inventory_calls Let_def
          all_defined_def)
  have f: "filter is_add_host ?invt
             = [AddHost ''db-staging-1'' (PStr ''staging''), AddHost ''web-prod-2'' (PStr ''prod'')]"
    by (simp add: add_sever_def dict_getitem_def get_hosts_group_def list_getitem_def
          str_split_def sample_options_def sample_server_def inventory_calls Let_def
          all_defined_def)
  have p: "parse ?api all_defined sample_options [] = Some (Inr (), ?invt)"
    using b e by (simp add: parse_def prod_eq_iff)
  from groups_before_hosts_one_add_host [OF a p]
  have r: "groups_registered_first [] ?invt"
    and s: "\<forall>srv h calls. dict_getitem (attributes srv) ''hostname'' = Inr (PStr h) \<longrightarrow>
               filter is_add_host (drop (length calls) (snd (add_sever all_defined sample_options srv calls)))
                 = [AddHost h (fst (get_hosts_group sample_options h calls))]"
    by blast+
  from f have t: "count_add_host ?invt = 2"
    by (simp add: count_add_host_def)
  from s c d have u: "filter is_add_host
        (drop (length ([] :: event list))
           (snd (add_sever all_defined sample_options (sample_server ''server1'' ''10.0.0.9'') [])))
       = [AddHost ''server1'' PNone]"
    by (metis (no_types))
  from p r t f have "\<exists>invt'. parse ?api all_defined sample_options [] = Some (Inr (), invt')
         \<and> groups_registered_first [] invt'
         \<and> count_add_host invt' = 2
         \<and> filter is_add_host invt'
             = [AddHost ''db-staging-1'' (PStr ''staging''), AddHost ''web-prod-2'' (PStr ''prod'')]"
    by blast
  with a b c u show ?thesis
    by blast
qed

text \<open>
  The claim as first stated fails on a page of three records whose second has no
  hostname: three records are fetched, \<^verbatim>\<open>parse\<close> fails at the second, and one
  \<^verbatim>\<open>add_host\<close> call has been made.
\<close>

theorem one_add_host_per_record_counterexample:
  "get_servers (paged_api [broken_page] (Replied (DataList []))) sample_options
     = Some ([page_request sample_options 1, page_request sample_options 2], Inr broken_page)
   \<and> length broken_page = 3
   \<and> parse (paged_api [broken_page] (Replied (DataList []))) all_defined sample_options []
       = Some (Inl (KeyError ''hostname''),
              [AddGroup ''staging'',
               AddHost ''db-staging-1'' (PStr ''staging''),
               SetVariable ''db-staging-1'' ''public_ip_address'' (PStr ''10.0.0.1''),
               SetVariable ''db-staging-1'' ''server_name'' (PStr ''db-staging-1''),
               SetVariable ''db-staging-1'' ''group'' (PStr ''staging''),
               SetCompositeVars []
                 [(''public_ip_address'', PStr ''10.0.0.1''),
                  (''server_name'', PStr ''db-staging-1''), (''group'', PStr ''staging'')]
                 ''db-staging-1'' True,
               AddHostToComposedGroups []
                 [(''public_ip_address'', PStr ''10.0.0.1''),
                  (''server_name'', PStr ''db-staging-1''), (''group'', PStr ''staging'')]
                 ''db-staging-1'' False,
               AddHostToKeyedGroups []
                 [(''public_ip_address'', PStr ''10.0.0.1''),
                  (''server_name'', PStr ''db-staging-1''), (''group'', PStr ''staging'')]
                 ''db-staging-1'' False])
   \<and> count_add_host
              [AddGroup ''staging'',
               AddHost ''db-staging-1'' (PStr ''staging''),
               SetVariable ''db-staging-1'' ''public_ip_address'' (PStr ''10.0.0.1''),
               SetVariable ''db-staging-1'' ''server_name'' (PStr ''db-staging-1''),
               SetVariable ''db-staging-1'' ''group'' (PStr ''staging''),
               SetCompositeVars []
                 [(''public_ip_address'', PStr ''10.0.0.1''),
                  (''server_name'', PStr ''db-staging-1''), (''group'', PStr ''staging'')]
                 ''db-staging-1'' True,
               AddHostToComposedGroups []
                 [(''public_ip_address'', PStr ''10.0.0.1''),
                  (''server_name'', PStr ''db-staging-1''), (''group'', PStr ''staging'')]
                 ''db-staging-1'' False,
               AddHostToKeyedGroups []
                 [(''public_ip_address'', PStr ''10.0.0.1''),
                  (''server_name'', PStr ''db-staging-1''), (''group'', PStr ''staging'')]
                 ''db-staging-1'' False]
       = 1"
proof -
  let ?api = "paged_api [broken_page] (Replied (DataList []))"
  have a: "get_servers ?api sample_options
     = Some ([page_request sample_options 1, page_request sample_options 2], Inr broken_page)"
    by (simp add: get_servers_def get_servers_loop.simps paged_api_def page_request_def
          broken_page_def)
  have b: "add_servers all_defined sample_options broken_page []
      = (Inl (KeyError ''hostname''),
              [AddGroup ''staging'',
               AddHost ''db-staging-1'' (PStr ''staging''),
               SetVariable ''db-staging-1'' ''public_ip_address'' (PStr ''10.0.0.1''),
               SetVariable ''db-staging-1'' ''server_name'' (PStr ''db-staging-1''),
               SetVariable ''db-staging-1'' ''group'' (PStr ''staging''),
               SetCompositeVars []
                 [(''public_ip_address'', PStr ''10.0.0.1''),
                  (''server_name'', PStr ''db-staging-1''), (''group'', PStr ''staging'')]
                 ''db-staging-1'' True,
               AddHostToComposedGroups []
                 [(''public_ip_address'', PStr ''10.0.0.1''),
                  (''server_name'', PStr ''db-staging-1''), (''group'', PStr ''staging'')]
                 ''db-staging-1'' False,
               AddHostToKeyedGroups []
                 [(''public_ip_address'', PStr ''10.0.0.1''),
                  (''server_name'', PStr ''db-staging-1''), (''group'', PStr ''staging'')]
                 ''db-staging-1'' False])"
    by (simp add: broken_page_def nameless_server_def add_sever_def dict_getitem_def
          get_hosts_group_def list_getitem_def str_split_def sample_options_def
          sample_server_def inventory_calls Let_def all_defined_def)
  have c: "length broken_page = 3"
    by (simp add: broken_page_def)
  from a b c show ?thesis
    by (simp add: parse_def count_add_host_def)
qed

end
